theory Spec2Isabelle
  imports Complex_Main
begin

section \<open>Monetizelt cloud functions: settlement, cleanup and payouts\<close>

text \<open>
  A shallow embedding of \<^verbatim>\<open>src/index.js\<close>. The document store is a record of
  collections, each a list of documents; every handler is a function from the store
  to the store and a response. Amounts are JavaScript numbers in the source; here
  they are exact rationals, so the arithmetic is the one the source writes down,
  without binary rounding. Timestamps are milliseconds since the epoch.
  Values the platform generates (document ids, access tokens, the clock) and the
  answers of external services (the payout network, the user-agent parser) are
  arguments of the handlers. Reads and writes of the store succeed, except in the
  deletion paths, whose runs are given the operations that throw.
\<close>

subsection \<open>Business constants\<close>

type_synonym docId = string
type_synonym money = rat
type_synonym millis = int

definition PRODUCT_TTL_MS :: millis where
  "PRODUCT_TTL_MS = 7 * 24 * 60 * 60 * 1000"

definition PAYPAL_FEE_RATE :: money where
  "PAYPAL_FEE_RATE = 349 / 10000"

definition PAYPAL_FEE_FIXED :: money where
  "PAYPAL_FEE_FIXED = 49 / 100"

definition PLATFORM_RATE :: money where
  "PLATFORM_RATE = 12 / 100"

definition MIN_PAYOUT :: money where
  "MIN_PAYOUT = 10"

definition STRIPE_FEE_RATE :: money where
  "STRIPE_FEE_RATE = 29 / 1000"

definition STRIPE_FEE_FIXED :: money where
  "STRIPE_FEE_FIXED = 3 / 10"

subsection \<open>General helpers\<close>

text \<open>JavaScript truthiness of an optional string: \<^verbatim>\<open>undefined\<close>, \<^verbatim>\<open>null\<close>
  and the empty string are falsy.\<close>

definition truthy :: "string option \<Rightarrow> bool" where
  "truthy v = (case v of None \<Rightarrow> False | Some s \<Rightarrow> s \<noteq> [])"

text \<open>\<^verbatim>\<open>a || b\<close> on optional strings.\<close>

definition orElse :: "string option \<Rightarrow> string \<Rightarrow> string" where
  "orElse v d = (case v of None \<Rightarrow> d | Some s \<Rightarrow> (if s = [] then d else s))"

text \<open>The class \<^verbatim>\<open>\s\<close> on single-byte characters: tab, line feed, vertical tab,
  form feed, carriage return and space.\<close>

definition isSpace :: "char \<Rightarrow> bool" where
  "isSpace c = (c \<in> set [CHR 0x09, CHR 0x0A, CHR 0x0B, CHR 0x0C, CHR 0x0D, CHR '' ''])"

definition plainChar :: "char \<Rightarrow> bool" where
  "plainChar c = (\<not> isSpace c \<and> c \<noteq> CHR ''@'')"

text \<open>\<^verbatim>\<open>isEmail\<close>: the string matches \<^verbatim>\<open>^[^\s@]+@[^\s@]+\.[^\s@]+$\<close>. Neither side
  of the \<^verbatim>\<open>@\<close> may hold another one, so the local part is everything before the
  first \<^verbatim>\<open>@\<close>, and the domain must have a dot that is neither its first nor its
  last character. A missing value is tested as the empty string.\<close>

definition isEmailStr :: "string \<Rightarrow> bool" where
  "isEmailStr s =
     (let a = takeWhile (\<lambda>c. c \<noteq> CHR ''@'') s;
          r = dropWhile (\<lambda>c. c \<noteq> CHR ''@'') s
      in case r of
           [] \<Rightarrow> False
         | _ # b \<Rightarrow> a \<noteq> [] \<and> list_all plainChar a \<and> list_all plainChar b
                     \<and> CHR ''.'' \<in> set (butlast (tl b)))"

definition isEmail :: "string option \<Rightarrow> bool" where
  "isEmail v = isEmailStr (orElse v [])"

text \<open>\<^verbatim>\<open>String.prototype.trim\<close> on single-byte characters.\<close>

definition trim :: "string \<Rightarrow> string" where
  "trim s = rev (dropWhile isSpace (rev (dropWhile isSpace s)))"

text \<open>\<^verbatim>\<open>Number.prototype.toFixed(2)\<close>, read back as a number: the multiple of 0.01
  nearest to the argument, the larger one on a tie.\<close>

definition toFixed2 :: "money \<Rightarrow> money" where
  "toFixed2 x = of_int \<lfloor>x * 100 + 1 / 2\<rfloor> / 100"

subsection \<open>Device fingerprint\<close>

record deviceInfo =
  d_browser :: string
  d_os :: string
  d_device :: string
  d_userAgent :: string

text \<open>What \<^verbatim>\<open>UAParser.getResult()\<close> yields; each part may be undefined.\<close>

record uaResult =
  ua_browser_name :: "string option"
  ua_browser_version :: "string option"
  ua_os_name :: "string option"
  ua_os_version :: "string option"
  ua_device_type :: "string option"
  ua_device_vendor :: "string option"
  ua_device_model :: "string option"

definition extractDeviceInfo :: "(string \<Rightarrow> uaResult) \<Rightarrow> string option \<Rightarrow> deviceInfo" where
  "extractDeviceInfo parser userAgent =
     (let r = parser (orElse userAgent [])
      in \<lparr> d_browser = trim (orElse (ua_browser_name r) ''Unknown'' @ '' '' @ orElse (ua_browser_version r) []),
           d_os = trim (orElse (ua_os_name r) ''Unknown'' @ '' '' @ orElse (ua_os_version r) []),
           d_device = (if truthy (ua_device_type r)
                       then trim (orElse (ua_device_vendor r) [] @ '' '' @ orElse (ua_device_model r) []
                                  @ '' ('' @ orElse (ua_device_type r) [] @ '')'')
                       else ''Desktop''),
           d_userAgent = orElse userAgent [] \<rparr>)"

subsection \<open>Documents and the store\<close>

record product =
  p_id :: docId
  p_uid :: docId
  p_title :: string
  p_price :: money
  p_coverPath :: string
  p_filePath :: string
  p_createdAt :: millis
  p_expiresAt :: "millis option"
  p_sales :: int
  p_revenue :: money

datatype orderStatus = Completed | Shipped | Delivered | Cancelled

record order =
  o_id :: docId
  o_productId :: docId
  o_productTitle :: string
  o_buyerEmail :: string
  o_sellerUid :: docId
  o_stripeSessionId :: string
  o_amount :: money
  o_stripeFee :: money
  o_commission :: money
  o_sellerAmount :: money
  o_status :: orderStatus
  o_accessToken :: string
  o_deviceInfo :: "deviceInfo option"

datatype txType = Sale | Payout

text \<open>A ledger line. \<open>t_fee\<close> is \<^verbatim>\<open>stripeFee\<close> on a sale and \<^verbatim>\<open>payoutFee\<close> on a
  payout; the commission, product id and order id exist on sales only.\<close>

record transaction =
  t_userId :: docId
  t_type :: txType
  t_amount :: money
  t_grossAmount :: money
  t_fee :: money
  t_commission :: "money option"
  t_productId :: "docId option"
  t_orderId :: "docId option"

record payoutRecord =
  ph_userId :: docId
  ph_amount :: money
  ph_grossAmount :: money
  ph_payoutFee :: money
  ph_paypalEmail :: string
  ph_batchId :: string

text \<open>A \<^verbatim>\<open>payoutErrors\<close> document. The helper writes an error type, a message and
  the original error; the weekly job writes the message only.\<close>

record payoutError =
  pe_userId :: docId
  pe_amount :: money
  pe_paypalEmail :: string
  pe_errorType :: "string option"
  pe_message :: string
  pe_originalError :: "string option"

record user =
  u_id :: docId
  u_balance :: money
  u_paypalEmail :: "string option"
  u_email :: "string option"

record paymentSession =
  ps_id :: docId
  ps_email :: string
  ps_productId :: docId
  ps_completed :: bool
  ps_orderId :: "docId option"
  ps_stripeSessionId :: "string option"
  ps_stripeStatus :: "string option"

record productView =
  v_productId :: docId
  v_sellerUid :: docId

record accessLog =
  al_orderId :: docId
  al_productId :: docId
  al_buyerEmail :: string
  al_deviceInfo :: deviceInfo

record accessAttempt =
  aa_orderId :: docId
  aa_originalDevice :: "deviceInfo option"
  aa_attemptDevice :: deviceInfo
  aa_allowed :: bool

record emailSentLog =
  el_type :: string
  el_productId :: docId

record linkGenerationDetail =
  lg_uid :: docId
  lg_productId :: docId

record userStat =
  us_uid :: docId
  us_linksCount :: int
  us_viewsCount :: int
  us_ordersCount :: int
  us_shippedCount :: int
  us_revenueCount :: money

record payoutSession =
  pss_status :: string
  pss_processedUsers :: nat
  pss_successfulPayouts :: nat
  pss_failedPayouts :: nat
  pss_totalAmount :: money

datatype emailType =
  sale_notification | payout_notification | payout_failed | min_balance_not_reached
  | purchase_confirmation

text \<open>An email handed to the mail provider: its kind, its recipient (a field of the
  caller's data, possibly undefined) and the amount it shows.\<close>

record notification =
  n_type :: emailType
  n_to :: "string option"
  n_amount :: money

text \<open>The store: the Firestore collections the core reads and writes, the storage
  bucket's object paths, the emails handed to the provider, and the sizes of the
  write batches committed, in order.\<close>

record store =
  products :: "product list"
  orders :: "order list"
  paymentSessions :: "paymentSession list"
  productViews :: "productView list"
  accessLogs :: "accessLog list"
  accessAttempts :: "accessAttempt list"
  emailSentLogs :: "emailSentLog list"
  linkGenerationDetails :: "linkGenerationDetail list"
  transactions :: "transaction list"
  payoutHistory :: "payoutRecord list"
  payoutErrors :: "payoutError list"
  payoutSessions :: "payoutSession list"
  users :: "user list"
  userStats :: "userStat list"
  productCleanupLogs :: "(nat \<times> docId list) list"
  files :: "string list"
  emails :: "notification list"
  commits :: "nat list"

definition emptyStore :: store where
  "emptyStore = \<lparr> products = [], orders = [], paymentSessions = [], productViews = [],
     accessLogs = [], accessAttempts = [], emailSentLogs = [], linkGenerationDetails = [],
     transactions = [], payoutHistory = [], payoutErrors = [], payoutSessions = [],
     users = [], userStats = [], productCleanupLogs = [], files = [], emails = [],
     commits = [] \<rparr>"

text \<open>\<^verbatim>\<open>collection.doc(id).get()\<close>: the document with that id, if there is one.\<close>

definition getDoc :: "('a \<Rightarrow> docId) \<Rightarrow> docId \<Rightarrow> 'a list \<Rightarrow> 'a option" where
  "getDoc ident i docs = find (\<lambda>d. ident d = i) docs"

text \<open>\<^verbatim>\<open>collection.doc(id).update(...)\<close>: change the document with that id, the
  one \<open>getDoc\<close> finds.\<close>

fun updateDoc :: "('a \<Rightarrow> docId) \<Rightarrow> docId \<Rightarrow> ('a \<Rightarrow> 'a) \<Rightarrow> 'a list \<Rightarrow> 'a list" where
  "updateDoc ident i f [] = []"
| "updateDoc ident i f (d # ds) =
     (if ident d = i then f d # ds else d # updateDoc ident i f ds)"

text \<open>\<^verbatim>\<open>collection.doc(id).set(..., {merge: true})\<close>: update the document, or
  create it from the given fresh one.\<close>

definition setMerge :: "('a \<Rightarrow> docId) \<Rightarrow> docId \<Rightarrow> ('a \<Rightarrow> 'a) \<Rightarrow> 'a \<Rightarrow> 'a list \<Rightarrow> 'a list" where
  "setMerge ident i f fresh docs =
     (case getDoc ident i docs of
        None \<Rightarrow> docs @ [fresh]
      | Some _ \<Rightarrow> updateDoc ident i f docs)"

text \<open>\<^verbatim>\<open>sendEmailNotification\<close> builds the message for the given kind and hands it to
  the provider; it catches every error itself. The rendering of the message is not
  modelled.\<close>

definition sendEmailNotification :: "emailType \<Rightarrow> string option \<Rightarrow> money \<Rightarrow> store \<Rightarrow> store" where
  "sendEmailNotification ty recipient amount s =
     s\<lparr>emails := emails s @ [\<lparr> n_type = ty, n_to = recipient, n_amount = amount \<rparr>]\<rparr>"

text \<open>\<^verbatim>\<open>deleteQueryBatch\<close>: read every document the query matches, put one delete
  per document into a single write batch and commit it; returns the snapshot's size.
  The arguments are the collection and the log of committed batch sizes.\<close>

definition deleteQueryBatch :: "('a \<Rightarrow> bool) \<Rightarrow> 'a list \<times> nat list \<Rightarrow> ('a list \<times> nat list) \<times> nat" where
  "deleteQueryBatch query cl =
     (let snap = filter query (fst cl)
      in if snap = [] then (cl, 0)
         else ((filter (\<lambda>d. \<not> query d) (fst cl), snd cl @ [length snap]), length snap))"

subsection \<open>Payout helper\<close>

definition toLowerChar :: "char \<Rightarrow> char" where
  "toLowerChar c =
     (let n = (of_char c :: nat) in if 65 \<le> n \<and> n \<le> 90 then char_of (n + 32) else c)"

definition toLowerCase :: "string \<Rightarrow> string" where
  "toLowerCase s = map toLowerChar s"

fun startsWith :: "string \<Rightarrow> string \<Rightarrow> bool" where
  "startsWith s [] = True"
| "startsWith [] (c # sub) = False"
| "startsWith (d # s) (c # sub) = (d = c \<and> startsWith s sub)"

text \<open>\<^verbatim>\<open>String.prototype.includes\<close>.\<close>

fun includesStr :: "string \<Rightarrow> string \<Rightarrow> bool" where
  "includesStr [] sub = (sub = [])"
| "includesStr (c # s) sub = (startsWith (c # s) sub \<or> includesStr s sub)"

text \<open>The request sent to the payout network: the item's sender id, its receiver
  and its amount, formatted with two decimals. The network answers with a batch id
  (\<open>Inr\<close>) or fails with a message (\<open>Inl\<close>).\<close>

record payoutRequest =
  pr_sender_item_id :: docId
  pr_receiver :: string
  pr_value :: money

type_synonym payoutNetwork = "payoutRequest \<Rightarrow> string + string"

text \<open>The \<^verbatim>\<open>catch (paypalError)\<close> block of \<^verbatim>\<open>processPayout\<close>: classify the message,
  tell the user of an invalid receiver, log a payout-error document and throw the
  classified message.\<close>

definition payoutFailed :: "docId \<Rightarrow> money \<Rightarrow> string \<Rightarrow> string \<Rightarrow> store \<Rightarrow> (string + string) \<times> store" where
  "payoutFailed userId amount paypalEmail msg s =
     (let low = toLowerCase msg;
          errorType = (if includesStr low ''insufficient'' then ''insufficient_funds''
                       else if includesStr low ''invalid'' \<and> includesStr low ''receiver'' then ''invalid_paypal''
                       else ''unknown'');
          errorMessage = (if includesStr low ''insufficient'' then ''Insufficient funds in the PayPal account''
                       else if includesStr low ''invalid'' \<and> includesStr low ''receiver''
                       then ''The PayPal email provided is invalid or not able to receive payments''
                       else ''An unknown error occurred'');
          s1 = (if \<not> includesStr low ''insufficient'' \<and> includesStr low ''invalid'' \<and> includesStr low ''receiver''
                then sendEmailNotification payout_failed (Some paypalEmail) amount s else s)
      in (Inl errorMessage,
          s1\<lparr>payoutErrors := payoutErrors s1 @
                [\<lparr> pe_userId = userId, pe_amount = amount, pe_paypalEmail = paypalEmail,
                   pe_errorType = Some errorType, pe_message = errorMessage,
                   pe_originalError = Some (orElse (Some msg) ''No error message'') \<rparr>]\<rparr>))"

text \<open>\<^verbatim>\<open>processPayout(userId, amount, paypalEmail)\<close>. The result is the network's
  batch id, or the message of the error thrown. Updating a user document that does
  not exist throws inside the inner \<^verbatim>\<open>try\<close>, after the network call, and is handled
  by the same \<^verbatim>\<open>catch\<close>.\<close>

definition processPayout :: "payoutNetwork \<Rightarrow> docId \<Rightarrow> money \<Rightarrow> string \<Rightarrow> store \<Rightarrow> (string + string) \<times> store" where
  "processPayout network userId amount paypalEmail s =
     (let payoutFee = PAYPAL_FEE_FIXED + amount * PAYPAL_FEE_RATE;
          netAmount = amount - payoutFee
      in if netAmount \<le> 0 then (Inl ''Amount after fees is not positive'', s)
         else
           (case network \<lparr> pr_sender_item_id = userId, pr_receiver = paypalEmail,
                           pr_value = toFixed2 netAmount \<rparr> of
              Inl msg \<Rightarrow> payoutFailed userId amount paypalEmail msg s
            | Inr batchId \<Rightarrow>
                (case getDoc u_id userId (users s) of
                   None \<Rightarrow> payoutFailed userId amount paypalEmail ''No document to update'' s
                 | Some _ \<Rightarrow>
                     (Inr batchId,
                      s\<lparr>users := updateDoc u_id userId (\<lambda>u. u\<lparr>u_balance := u_balance u - amount\<rparr>) (users s),
                        payoutHistory := payoutHistory s @
                          [\<lparr> ph_userId = userId, ph_amount = netAmount, ph_grossAmount = amount,
                             ph_payoutFee = payoutFee, ph_paypalEmail = paypalEmail,
                             ph_batchId = batchId \<rparr>],
                        transactions := transactions s @
                          [\<lparr> t_userId = userId, t_type = Payout, t_amount = netAmount,
                             t_grossAmount = amount, t_fee = payoutFee, t_commission = None,
                             t_productId = None, t_orderId = None \<rparr>]\<rparr>))))"

subsection \<open>Weekly payouts\<close>

record counters =
  processedUsers :: nat
  successfulPayouts :: nat
  failedPayouts :: nat
  totalAmount :: money

text \<open>One turn of the loop over \<^verbatim>\<open>usersSnap.docs\<close>: the user's data is the
  snapshot's.\<close>

definition payoutUser :: "payoutNetwork \<Rightarrow> user \<Rightarrow> store \<times> counters \<Rightarrow> store \<times> counters" where
  "payoutUser network u sc =
     (let s = fst sc; c = snd sc;
          userId = u_id u; balance = u_balance u; paypalEmail = u_paypalEmail u
      in if \<not> isEmail paypalEmail then (s, c\<lparr>failedPayouts := failedPayouts c + 1\<rparr>)
         else if balance < MIN_PAYOUT then (s, c)
         else
           (let c1 = c\<lparr>processedUsers := processedUsers c + 1\<rparr>
            in case processPayout network userId balance (orElse paypalEmail []) s of
                 (Inr resp, s1) \<Rightarrow>
                   (sendEmailNotification payout_notification paypalEmail
                      (balance - (PAYPAL_FEE_FIXED + balance * PAYPAL_FEE_RATE)) s1,
                    c1\<lparr>successfulPayouts := successfulPayouts c1 + 1,
                       totalAmount := totalAmount c1 + balance\<rparr>)
               | (Inl err, s1) \<Rightarrow>
                   (s1\<lparr>payoutErrors := payoutErrors s1 @
                         [\<lparr> pe_userId = userId, pe_amount = balance,
                            pe_paypalEmail = orElse paypalEmail [], pe_errorType = None,
                            pe_message = orElse (Some err) ''Unknown error'',
                            pe_originalError = None \<rparr>]\<rparr>,
                    c1\<lparr>failedPayouts := failedPayouts c1 + 1\<rparr>)))"

fun payoutLoop :: "payoutNetwork \<Rightarrow> user list \<Rightarrow> store \<times> counters \<Rightarrow> store \<times> counters" where
  "payoutLoop network [] sc = sc"
| "payoutLoop network (u # us) sc = payoutLoop network us (payoutUser network u sc)"

text \<open>The loop over \<^verbatim>\<open>lowBalanceUsersSnap.docs\<close>.\<close>

fun lowBalanceLoop :: "user list \<Rightarrow> store \<Rightarrow> store" where
  "lowBalanceLoop [] s = s"
| "lowBalanceLoop (u # us) s =
     lowBalanceLoop us
       (if truthy (u_email u) \<and> isEmail (u_email u)
        then sendEmailNotification min_balance_not_reached (u_email u) (u_balance u) s
        else s)"

text \<open>\<^verbatim>\<open>processWeeklyPayouts\<close>, the scheduled job. Store operations are taken to
  succeed, so the job's outer \<^verbatim>\<open>catch\<close> is not reached.\<close>

definition processWeeklyPayouts :: "payoutNetwork \<Rightarrow> store \<Rightarrow> store" where
  "processWeeklyPayouts network s =
     (let ref = length (payoutSessions s);
          s0 = s\<lparr>payoutSessions := payoutSessions s @
                 [\<lparr> pss_status = ''started'', pss_processedUsers = 0, pss_successfulPayouts = 0,
                    pss_failedPayouts = 0, pss_totalAmount = 0 \<rparr>]\<rparr>;
          usersSnap = filter (\<lambda>u. MIN_PAYOUT \<le> u_balance u \<and> u_paypalEmail u \<noteq> None) (users s0);
          sc = payoutLoop network usersSnap
                 (s0, \<lparr> processedUsers = 0, successfulPayouts = 0, failedPayouts = 0, totalAmount = 0 \<rparr>);
          s1 = fst sc; c = snd sc;
          lowBalanceUsersSnap =
            filter (\<lambda>u. 0 < u_balance u \<and> u_balance u < MIN_PAYOUT \<and> u_paypalEmail u \<noteq> None) (users s1);
          s2 = lowBalanceLoop lowBalanceUsersSnap s1
      in s2\<lparr>payoutSessions := (payoutSessions s2)
              [ref := \<lparr> pss_status = ''completed'', pss_processedUsers = processedUsers c,
                        pss_successfulPayouts = successfulPayouts c,
                        pss_failedPayouts = failedPayouts c, pss_totalAmount = totalAmount c \<rparr>]\<rparr>)"

subsection \<open>Listing a product and the buyer's read paths\<close>

datatype 'a reply = Fail nat string | Success 'a

text \<open>The test every read path writes out:
  \<^verbatim>\<open>product.expiresAt && product.expiresAt.toDate() < new Date()\<close>.\<close>

definition isExpired :: "millis \<Rightarrow> product \<Rightarrow> bool" where
  "isExpired now p = (case p_expiresAt p of None \<Rightarrow> False | Some e \<Rightarrow> e < now)"






text \<open>\<^verbatim>\<open>getProductDetails\<close>: the product page. A view is recorded and counted.\<close>

definition getProductDetails :: "millis \<Rightarrow> string option \<Rightarrow> store \<Rightarrow> product reply \<times> store" where
  "getProductDetails now productId s =
     (if \<not> truthy productId then (Fail 400 ''Missing productId'', s)
      else case getDoc p_id (the productId) (products s) of
             None \<Rightarrow> (Fail 404 ''Product not found'', s)
           | Some product \<Rightarrow>
               if isExpired now product then (Fail 410 ''This product has expired'', s)
               else
                 (Success product,
                  s\<lparr>productViews := productViews s @
                       [\<lparr> v_productId = the productId, v_sellerUid = p_uid product \<rparr>],
                    userStats := setMerge us_uid (p_uid product)
                       (\<lambda>st. st\<lparr>us_viewsCount := us_viewsCount st + 1\<rparr>)
                       \<lparr> us_uid = p_uid product, us_linksCount = 1, us_viewsCount = 1,
                         us_ordersCount = 0, us_shippedCount = 0, us_revenueCount = 0 \<rparr>
                       (userStats s)\<rparr>))"

text \<open>\<^verbatim>\<open>collectBuyerEmail\<close>: opens a payment session under a generated id. The
  document is written with \<^verbatim>\<open>set\<close>, which replaces one already stored under the id.\<close>

definition collectBuyerEmail ::
  "millis \<Rightarrow> docId \<Rightarrow> string option \<Rightarrow> string option \<Rightarrow> store \<Rightarrow> docId reply \<times> store" where
  "collectBuyerEmail now sessionId email productId s =
     (if \<not> truthy email \<or> \<not> truthy productId then (Fail 400 ''Missing email or productId'', s)
      else if \<not> isEmail email then (Fail 400 ''Invalid email format'', s)
      else case getDoc p_id (the productId) (products s) of
             None \<Rightarrow> (Fail 404 ''Product not found'', s)
           | Some product \<Rightarrow>
               if isExpired now product then (Fail 410 ''This product has expired'', s)
               else
                 (let fresh = \<lparr> ps_id = sessionId, ps_email = the email,
                                ps_productId = the productId, ps_completed = False,
                                ps_orderId = None, ps_stripeSessionId = None,
                                ps_stripeStatus = None \<rparr>
                  in (Success sessionId,
                      s\<lparr>paymentSessions :=
                           setMerge ps_id sessionId (\<lambda>_. fresh) fresh (paymentSessions s)\<rparr>)))"

text \<open>\<^verbatim>\<open>createStripeCheckoutSession\<close>. The gateway's answer to the creation of the
  checkout session is an argument: its session id, or \<open>None\<close> when the call throws.\<close>

definition createStripeCheckoutSession ::
  "millis \<Rightarrow> string option \<Rightarrow> string option \<Rightarrow> string option \<Rightarrow> store \<Rightarrow> string reply \<times> store" where
  "createStripeCheckoutSession now gateway productId sessionId s =
     (if \<not> truthy productId \<or> \<not> truthy sessionId then (Fail 400 ''Missing productId or sessionId'', s)
      else (case getDoc ps_id (the sessionId) (paymentSessions s) of
             None \<Rightarrow> (Fail 404 ''Session not found'', s)
           | Some sessionDoc \<Rightarrow>
               if ps_completed sessionDoc then (Fail 400 ''Session already completed'', s)
               else (case getDoc p_id (the productId) (products s) of
                      None \<Rightarrow> (Fail 404 ''Product not found'', s)
                    | Some product \<Rightarrow>
                        if isExpired now product then (Fail 410 ''This product has expired'', s)
                        else (case gateway of
                               None \<Rightarrow> (Fail 500 ''Internal error'', s)
                             | Some sid \<Rightarrow>
                                 (Success sid,
                                  s\<lparr>paymentSessions := updateDoc ps_id (the sessionId)
                                       (\<lambda>d. d\<lparr>ps_stripeSessionId := Some sid,
                                               ps_stripeStatus := Some ''created''\<rparr>)
                                       (paymentSessions s)\<rparr>)))))"

subsection \<open>Fulfillment: the payment gateway's webhook\<close>

text \<open>The checkout session inside a \<^verbatim>\<open>checkout.session.completed\<close> event.\<close>

record checkoutSession =
  cs_id :: string
  cs_app_session_id :: "string option"
  cs_app_product_id :: "string option"
  cs_app_seller_uid :: "string option"
  cs_app_product_title :: "string option"
  cs_customer_details_email :: "string option"
  cs_customer_email :: "string option"

record event =
  ev_type :: string
  ev_object :: checkoutSession

text \<open>What reaches the webhook: a body that cannot be read, a payload whose signature
  does not verify, or a verified event.\<close>

datatype delivery = UnreadableBody | BadSignature | Verified event

datatype webhookReply = InvalidBody | WebhookError | Received

text \<open>What the platform supplies during one fulfillment: the clock, the id of the
  new order document and the random access token.\<close>

record fulfilEnv =
  fe_now :: millis
  fe_orderId :: docId
  fe_accessToken :: string

definition stripeFee :: "money \<Rightarrow> money" where
  "stripeFee productPrice = productPrice * STRIPE_FEE_RATE + STRIPE_FEE_FIXED"

definition monetizeltCommission :: "money \<Rightarrow> money" where
  "monetizeltCommission productPrice = productPrice * PLATFORM_RATE"

definition sellerAmount :: "money \<Rightarrow> money" where
  "sellerAmount productPrice = productPrice - stripeFee productPrice - monetizeltCommission productPrice"

text \<open>The writes of a fulfillment, once every check has passed: the order, the
  product's counters, the seller's balance, the sale transaction, the seller's
  statistics, the session's flag, and the two emails.\<close>

definition fulfil ::
  "fulfilEnv \<Rightarrow> checkoutSession \<Rightarrow> docId \<Rightarrow> docId \<Rightarrow> docId \<Rightarrow> string \<Rightarrow> product \<Rightarrow> store \<Rightarrow> store" where
  "fulfil env session appSessionId productId sellerUid buyerEmail product s =
     (let productPrice = p_price product;
          productTitle = orElse (cs_app_product_title session) ''Product'';
          s1 = s\<lparr>orders := orders s @
                 [\<lparr> o_id = fe_orderId env, o_productId = productId, o_productTitle = productTitle,
                    o_buyerEmail = buyerEmail, o_sellerUid = sellerUid,
                    o_stripeSessionId = cs_id session, o_amount = productPrice,
                    o_stripeFee = stripeFee productPrice,
                    o_commission = monetizeltCommission productPrice,
                    o_sellerAmount = sellerAmount productPrice, o_status = Completed,
                    o_accessToken = fe_accessToken env,
                    o_deviceInfo = Some \<lparr> d_browser = ''Unknown'', d_os = ''Unknown'',
                                          d_device = ''Unknown'', d_userAgent = [] \<rparr> \<rparr>]\<rparr>;
          s2 = s1\<lparr>products := updateDoc p_id productId
                 (\<lambda>p. p\<lparr>p_sales := p_sales p + 1,
                         p_revenue := p_revenue p + sellerAmount productPrice\<rparr>) (products s1)\<rparr>;
          s3 = s2\<lparr>users := setMerge u_id sellerUid
                 (\<lambda>u. u\<lparr>u_balance := u_balance u + sellerAmount productPrice\<rparr>)
                 \<lparr> u_id = sellerUid, u_balance = sellerAmount productPrice,
                   u_paypalEmail = None, u_email = None \<rparr> (users s2)\<rparr>;
          s4 = s3\<lparr>transactions := transactions s3 @
                 [\<lparr> t_userId = sellerUid, t_type = Sale, t_amount = sellerAmount productPrice,
                    t_grossAmount = productPrice, t_fee = stripeFee productPrice,
                    t_commission = Some (monetizeltCommission productPrice),
                    t_productId = Some productId, t_orderId = Some (fe_orderId env) \<rparr>]\<rparr>;
          s5 = s4\<lparr>userStats := setMerge us_uid sellerUid
                 (\<lambda>st. st\<lparr>us_ordersCount := us_ordersCount st + 1,
                          us_revenueCount := us_revenueCount st + sellerAmount productPrice\<rparr>)
                 \<lparr> us_uid = sellerUid, us_linksCount = 1, us_viewsCount = 0, us_ordersCount = 1,
                   us_shippedCount = 0, us_revenueCount = sellerAmount productPrice \<rparr>
                 (userStats s4)\<rparr>;
          s6 = s5\<lparr>paymentSessions := updateDoc ps_id appSessionId
                 (\<lambda>d. d\<lparr>ps_completed := True, ps_orderId := Some (fe_orderId env),
                         ps_stripeStatus := Some ''completed''\<rparr>) (paymentSessions s5)\<rparr>;
          s7 = s6\<lparr>emails := emails s6 @
                 [\<lparr> n_type = purchase_confirmation, n_to = Some buyerEmail,
                    n_amount = productPrice \<rparr>]\<rparr>;
          sellerEmail = (case getDoc u_id sellerUid (users s7) of
                           None \<Rightarrow> None | Some d \<Rightarrow> u_email d)
      in if truthy sellerEmail \<and> isEmail sellerEmail
         then sendEmailNotification sale_notification sellerEmail productPrice s7
         else s7)"

text \<open>\<^verbatim>\<open>stripeWebhook\<close>.\<close>

definition stripeWebhook :: "fulfilEnv \<Rightarrow> delivery \<Rightarrow> store \<Rightarrow> webhookReply \<times> store" where
  "stripeWebhook env d s =
     (case d of
        UnreadableBody \<Rightarrow> (InvalidBody, s)
      | BadSignature \<Rightarrow> (WebhookError, s)
      | Verified ev \<Rightarrow>
          if ev_type ev \<noteq> ''checkout.session.completed'' then (Received, s)
          else
            (let session = ev_object ev;
                 appSessionId = cs_app_session_id session;
                 productId = cs_app_product_id session;
                 sellerUid = cs_app_seller_uid session;
                 buyerEmail = (if truthy (cs_customer_details_email session)
                               then cs_customer_details_email session
                               else cs_customer_email session)
             in if \<not> truthy appSessionId \<or> \<not> truthy productId \<or> \<not> truthy sellerUid
                   \<or> \<not> truthy buyerEmail
                then (Received, s)
                else
                  (case getDoc ps_id (the appSessionId) (paymentSessions s) of
                     None \<Rightarrow> (Received, s)
                   | Some paymentSessionDoc \<Rightarrow>
                       if ps_completed paymentSessionDoc then (Received, s)
                       else
                         (case getDoc p_id (the productId) (products s) of
                            None \<Rightarrow> (Received, s)
                          | Some product \<Rightarrow>
                              if isExpired (fe_now env) product then (Received, s)
                              else if p_filePath product \<notin> set (files s) then (Received, s)
                              else (Received,
                                    fulfil env session (the appSessionId) (the productId)
                                      (the sellerUid) (the buyerEmail) product s)))))"

subsection \<open>Access to purchased content\<close>

text \<open>The content handed out: the paths the signed URLs are made for.\<close>

record content =
  c_title :: string
  c_fileUrl :: string
  c_coverUrl :: string

text \<open>\<^verbatim>\<open>accessContent\<close>. The classification of the file's extension into a
  content type is not modelled.\<close>

definition accessContent ::
  "(string \<Rightarrow> uaResult) \<Rightarrow> string option \<Rightarrow> string option \<Rightarrow> store \<Rightarrow> content reply \<times> store" where
  "accessContent parser token userAgent s =
     (if \<not> truthy token then (Fail 400 ''Missing access token'', s)
      else case find (\<lambda>x. o_accessToken x = the token) (orders s) of
             None \<Rightarrow> (Fail 404 ''Invalid access token. You can only access content you have purchased.'', s)
           | Some order \<Rightarrow>
               (let deviceInfo = extractDeviceInfo parser userAgent;
                    originalDevice = o_deviceInfo order;
                    isSameDevice =
                      (d_browser deviceInfo = (case originalDevice of None \<Rightarrow> [] | Some od \<Rightarrow> d_browser od)
                       \<and> d_os deviceInfo = (case originalDevice of None \<Rightarrow> [] | Some od \<Rightarrow> d_os od))
                in if \<not> isSameDevice
                   then (Fail 403 ''You can only access this content from the device used for purchase.'',
                         s\<lparr>accessAttempts := accessAttempts s @
                              [\<lparr> aa_orderId = o_id order, aa_originalDevice = originalDevice,
                                 aa_attemptDevice = deviceInfo, aa_allowed = False \<rparr>]\<rparr>)
                   else (case getDoc p_id (o_productId order) (products s) of
                          None \<Rightarrow> (Fail 404 ''Product not found'', s)
                        | Some product \<Rightarrow>
                            (let s1 = s\<lparr>accessLogs := accessLogs s @
                                        [\<lparr> al_orderId = o_id order, al_productId = o_productId order,
                                           al_buyerEmail = o_buyerEmail order,
                                           al_deviceInfo = deviceInfo \<rparr>]\<rparr>;
                                 s2 = (if o_status order = Completed
                                       then s1\<lparr>orders := updateDoc o_id (o_id order)
                                                  (\<lambda>x. x\<lparr>o_status := Shipped\<rparr>) (orders s1),
                                               userStats := setMerge us_uid (p_uid product)
                                                  (\<lambda>st. st\<lparr>us_shippedCount := us_shippedCount st + 1\<rparr>)
                                                  \<lparr> us_uid = p_uid product, us_linksCount = 0,
                                                    us_viewsCount = 0, us_ordersCount = 0,
                                                    us_shippedCount = 1, us_revenueCount = 0 \<rparr>
                                                  (userStats s1)\<rparr>
                                       else s1)
                             in (Success \<lparr> c_title = p_title product,
                                           c_fileUrl = p_filePath product,
                                           c_coverUrl = p_coverPath product \<rparr>, s2)))))"

subsection \<open>Cascading deletion: the hourly sweep and the owner's deletion\<close>

text \<open>The store and storage operations of the deletion paths. Each may throw; which
  ones do in a given run is an argument of the run, a predicate on the operations.\<close>

datatype storeOp =
    DeleteFile string
  | DeleteViews docId
  | QueryOrders docId
  | DeleteAccessLogs docId
  | DeleteAccessAttempts docId
  | DeleteOrders docId
  | DeletePaymentSessions docId
  | DeleteEmailSentLogs docId
  | DeleteLinkGenerationDetails docId
  | DeleteProductDoc docId
  | RecomputeStats docId

type_synonym faults = "storeOp \<Rightarrow> bool"

definition noFaults :: faults where
  "noFaults = (\<lambda>_. False)"

text \<open>\<^verbatim>\<open>try { await op } catch (e) { console.error(...) }\<close>: a failed operation
  changes nothing and the run goes on.\<close>

definition attempt :: "faults \<Rightarrow> storeOp \<Rightarrow> (store \<Rightarrow> store) \<Rightarrow> store \<Rightarrow> store" where
  "attempt faults oper f s = (if faults oper then s else f s)"

definition deleteFile :: "string \<Rightarrow> store \<Rightarrow> store" where
  "deleteFile path s = s\<lparr>files := filter (\<lambda>f. f \<noteq> path) (files s)\<rparr>"

definition deleteViews :: "docId \<Rightarrow> store \<Rightarrow> store" where
  "deleteViews productId s =
     (let r = fst (deleteQueryBatch (\<lambda>v. v_productId v = productId) (productViews s, commits s))
      in s\<lparr>productViews := fst r, commits := snd r\<rparr>)"

definition deleteAccessLogs :: "docId \<Rightarrow> store \<Rightarrow> store" where
  "deleteAccessLogs orderId s =
     (let r = fst (deleteQueryBatch (\<lambda>l. al_orderId l = orderId) (accessLogs s, commits s))
      in s\<lparr>accessLogs := fst r, commits := snd r\<rparr>)"

definition deleteAccessAttempts :: "docId \<Rightarrow> store \<Rightarrow> store" where
  "deleteAccessAttempts orderId s =
     (let r = fst (deleteQueryBatch (\<lambda>l. aa_orderId l = orderId) (accessAttempts s, commits s))
      in s\<lparr>accessAttempts := fst r, commits := snd r\<rparr>)"

definition deletePaymentSessions :: "docId \<Rightarrow> store \<Rightarrow> store" where
  "deletePaymentSessions productId s =
     (let r = fst (deleteQueryBatch (\<lambda>d. ps_productId d = productId) (paymentSessions s, commits s))
      in s\<lparr>paymentSessions := fst r, commits := snd r\<rparr>)"

definition deleteEmailSentLogs :: "docId \<Rightarrow> store \<Rightarrow> store" where
  "deleteEmailSentLogs productId s =
     (let r = fst (deleteQueryBatch (\<lambda>d. el_productId d = productId) (emailSentLogs s, commits s))
      in s\<lparr>emailSentLogs := fst r, commits := snd r\<rparr>)"

definition deleteLinkGenerationDetails :: "docId \<Rightarrow> store \<Rightarrow> store" where
  "deleteLinkGenerationDetails productId s =
     (let r = fst (deleteQueryBatch (\<lambda>d. lg_productId d = productId) (linkGenerationDetails s, commits s))
      in s\<lparr>linkGenerationDetails := fst r, commits := snd r\<rparr>)"

text \<open>The batch built inline from an orders snapshot: one delete per document of
  the snapshot, by reference, committed at once.\<close>

definition deleteOrders :: "order list \<Rightarrow> store \<Rightarrow> store" where
  "deleteOrders snap s =
     s\<lparr>orders := filter (\<lambda>x. o_id x \<notin> set (map o_id snap)) (orders s),
       commits := commits s @ [length snap]\<rparr>"

definition deleteProductDoc :: "docId \<Rightarrow> store \<Rightarrow> store" where
  "deleteProductDoc productId s = s\<lparr>products := filter (\<lambda>p. p_id p \<noteq> productId) (products s)\<rparr>"

text \<open>The recount of a seller's statistics from the surviving documents.\<close>

definition recomputeStats :: "docId \<Rightarrow> store \<Rightarrow> store" where
  "recomputeStats uid s =
     (let linksCount = int (length (filter (\<lambda>p. p_uid p = uid) (products s)));
          viewsCount = int (length (filter (\<lambda>v. v_sellerUid v = uid) (productViews s)));
          sold = filter (\<lambda>x. o_sellerUid x = uid) (orders s);
          ordersCount = int (length sold);
          shippedCount = int (length (filter (\<lambda>x. o_status x = Shipped \<or> o_status x = Delivered) sold));
          revenueCount = sum_list (map o_sellerAmount
                           (filter (\<lambda>x. o_sellerAmount x \<noteq> 0 \<and> o_status x \<noteq> Cancelled) sold))
      in s\<lparr>userStats := setMerge us_uid uid
             (\<lambda>st. st\<lparr>us_linksCount := linksCount, us_viewsCount := viewsCount,
                      us_ordersCount := ordersCount, us_shippedCount := shippedCount,
                      us_revenueCount := revenueCount\<rparr>)
             \<lparr> us_uid = uid, us_linksCount = linksCount, us_viewsCount = viewsCount,
               us_ordersCount = ordersCount, us_shippedCount = shippedCount,
               us_revenueCount = revenueCount \<rparr> (userStats s)\<rparr>)"

text \<open>The sweep's loop over the orders of a product: access logs and access
  attempts of each order.\<close>

fun orderLogsLoop :: "faults \<Rightarrow> order list \<Rightarrow> store \<Rightarrow> store" where
  "orderLogsLoop faults [] s = s"
| "orderLogsLoop faults (x # xs) s =
     orderLogsLoop faults xs
       (attempt faults (DeleteAccessAttempts (o_id x)) (deleteAccessAttempts (o_id x))
          (attempt faults (DeleteAccessLogs (o_id x)) (deleteAccessLogs (o_id x)) s))"

text \<open>The body of the sweep's loop, for one expired product.\<close>

definition cleanupProduct :: "faults \<Rightarrow> product \<Rightarrow> store \<Rightarrow> store" where
  "cleanupProduct faults product s =
     (let productId = p_id product;
          s1 = (if p_coverPath product \<noteq> []
                then attempt faults (DeleteFile (p_coverPath product)) (deleteFile (p_coverPath product)) s
                else s);
          s2 = (if p_filePath product \<noteq> []
                then attempt faults (DeleteFile (p_filePath product)) (deleteFile (p_filePath product)) s1
                else s1);
          s3 = attempt faults (DeleteViews productId) (deleteViews productId) s2;
          ordersSnap = (if faults (QueryOrders productId) then []
                        else filter (\<lambda>x. o_productId x = productId) (orders s3));
          s4 = (if ordersSnap \<noteq> []
                then attempt faults (DeleteOrders productId) (deleteOrders ordersSnap)
                       (orderLogsLoop faults ordersSnap s3)
                else s3);
          s5 = attempt faults (DeletePaymentSessions productId) (deletePaymentSessions productId) s4;
          s6 = attempt faults (DeleteEmailSentLogs productId) (deleteEmailSentLogs productId) s5;
          s7 = attempt faults (DeleteLinkGenerationDetails productId)
                 (deleteLinkGenerationDetails productId) s6
      in attempt faults (DeleteProductDoc productId) (deleteProductDoc productId) s7)"

fun cleanupLoop :: "faults \<Rightarrow> product list \<Rightarrow> store \<Rightarrow> store" where
  "cleanupLoop faults [] s = s"
| "cleanupLoop faults (p # ps) s = cleanupLoop faults ps (cleanupProduct faults p s)"

fun statsLoop :: "faults \<Rightarrow> docId list \<Rightarrow> store \<Rightarrow> store" where
  "statsLoop faults [] s = s"
| "statsLoop faults (uid # uids) s =
     statsLoop faults uids (attempt faults (RecomputeStats uid) (recomputeStats uid) s)"

text \<open>The keys of \<^verbatim>\<open>sellerImpact\<close>: the sellers of the deleted products, each once,
  in the order of their first product.\<close>

definition impactedSellers :: "product list \<Rightarrow> docId list" where
  "impactedSellers ps = rev (remdups (rev (filter (\<lambda>u. u \<noteq> []) (map p_uid ps))))"

text \<open>\<^verbatim>\<open>cleanupOldProducts\<close>, the hourly job, run at time \<open>now\<close>.\<close>

definition cleanupOldProducts :: "faults \<Rightarrow> millis \<Rightarrow> store \<Rightarrow> store" where
  "cleanupOldProducts faults now s =
     (let cutoff = now - PRODUCT_TTL_MS;
          productsToDelete = filter (\<lambda>p. p_createdAt p < cutoff) (products s)
      in if productsToDelete = [] then s
         else
           (let s0 = s\<lparr>productCleanupLogs := productCleanupLogs s @
                       [(length productsToDelete, map p_id productsToDelete)]\<rparr>;
                s1 = cleanupLoop faults productsToDelete s0
            in statsLoop faults (impactedSellers productsToDelete) s1))"




subsection \<open>Observations on the store\<close>

text \<open>A user's stored balance; a user without a document is owed nothing.\<close>

definition balanceOf :: "docId \<Rightarrow> store \<Rightarrow> money" where
  "balanceOf uid s = (case getDoc u_id uid (users s) of None \<Rightarrow> 0 | Some d \<Rightarrow> u_balance d)"










text \<open>The request the weekly job has \<^verbatim>\<open>processPayout\<close> send for a user.\<close>

definition payoutRequestOf :: "user \<Rightarrow> payoutRequest" where
  "payoutRequestOf u =
     \<lparr> pr_sender_item_id = u_id u, pr_receiver = orElse (u_paypalEmail u) [],
       pr_value = toFixed2 (u_balance u - (PAYPAL_FEE_FIXED + u_balance u * PAYPAL_FEE_RATE)) \<rparr>"

text \<open>The batch sizes one \<^verbatim>\<open>deleteQueryBatch\<close> adds to the log for a snapshot.\<close>

definition batchOf :: "'a list \<Rightarrow> nat list" where
  "batchOf snap = (if snap = [] then [] else [length snap])"


subsection \<open>Example data\<close>

definition exProduct :: product where
  "exProduct = \<lparr> p_id = ''p1'', p_uid = ''u1'', p_title = ''Song'', p_price = 100,
     p_coverPath = ''c.png'', p_filePath = ''f.mp3'', p_createdAt = 0,
     p_expiresAt = Some 604800000, p_sales = 0, p_revenue = 0 \<rparr>"

definition exSession :: paymentSession where
  "exSession = \<lparr> ps_id = ''s1'', ps_email = ''b@x.io'', ps_productId = ''p1'',
     ps_completed = False, ps_orderId = None, ps_stripeSessionId = None,
     ps_stripeStatus = None \<rparr>"

definition exSeller :: user where
  "exSeller = \<lparr> u_id = ''u1'', u_balance = 0, u_paypalEmail = Some ''s@pay.io'',
     u_email = Some ''s@mail.io'' \<rparr>"

definition exStore :: store where
  "exStore = emptyStore\<lparr>products := [exProduct], paymentSessions := [exSession],
     users := [exSeller], files := [''c.png'', ''f.mp3'']\<rparr>"

definition exEvent :: event where
  "exEvent = \<lparr> ev_type = ''checkout.session.completed'',
     ev_object = \<lparr> cs_id = ''cs_1'', cs_app_session_id = Some ''s1'',
       cs_app_product_id = Some ''p1'', cs_app_seller_uid = Some ''u1'',
       cs_app_product_title = Some ''Song'', cs_customer_details_email = Some ''b@x.io'',
       cs_customer_email = None \<rparr> \<rparr>"

definition exEnv :: fulfilEnv where
  "exEnv = \<lparr> fe_now = 1000, fe_orderId = ''o1'', fe_accessToken = ''tok'' \<rparr>"

text \<open>The store after the example sale.\<close>

definition exSold :: store where
  "exSold = snd (stripeWebhook exEnv (Verified exEvent) exStore)"



text \<open>The example store with 501 recorded views of the product.\<close>

definition exViews :: "productView list" where
  "exViews = replicate 501 \<lparr> v_productId = ''p1'', v_sellerUid = ''u1'' \<rparr>"

definition exViewsStore :: store where
  "exViewsStore = exStore\<lparr>productViews := exViews\<rparr>"

text \<open>Two answers of the user-agent parser: nothing recognised, and a desktop
  browser.\<close>

definition exParserUnknown :: "string \<Rightarrow> uaResult" where
  "exParserUnknown ua = \<lparr> ua_browser_name = None, ua_browser_version = None, ua_os_name = None,
     ua_os_version = None, ua_device_type = None, ua_device_vendor = None, ua_device_model = None \<rparr>"

definition exParserChrome :: "string \<Rightarrow> uaResult" where
  "exParserChrome ua = \<lparr> ua_browser_name = Some ''Chrome'', ua_browser_version = Some ''120'',
     ua_os_name = Some ''Windows'', ua_os_version = Some ''10'', ua_device_type = None,
     ua_device_vendor = None, ua_device_model = None \<rparr>"


text \<open>What the store holds about one user.\<close>

definition userView ::
  "docId \<Rightarrow> store \<Rightarrow> user option \<times> transaction list \<times> payoutRecord list \<times> payoutError list" where
  "userView i s =
     (getDoc u_id i (users s), filter (\<lambda>t. t_userId t = i) (transactions s),
      filter (\<lambda>r. ph_userId r = i) (payoutHistory s),
      filter (\<lambda>e. pe_userId e = i) (payoutErrors s))"

text \<open>Four sellers on a payout day: one whose payout the network refuses, one
  exactly at the threshold, and two just below it, the second without an account
  email. The network refuses the first seller and accepts everyone else.\<close>

definition exA :: user where
  "exA = \<lparr> u_id = ''a'', u_balance = 20, u_paypalEmail = Some ''a@p.io'', u_email = Some ''a@m.io'' \<rparr>"

definition exB :: user where
  "exB = \<lparr> u_id = ''b'', u_balance = 10, u_paypalEmail = Some ''b@p.io'', u_email = Some ''b@m.io'' \<rparr>"

definition exL :: user where
  "exL = \<lparr> u_id = ''l'', u_balance = 999 / 100, u_paypalEmail = Some ''l@p.io'', u_email = Some ''l@m.io'' \<rparr>"

definition exN :: user where
  "exN = \<lparr> u_id = ''n'', u_balance = 999 / 100, u_paypalEmail = Some ''n@p.io'', u_email = None \<rparr>"

definition exPayStore :: store where
  "exPayStore = emptyStore\<lparr>users := [exA, exB, exL, exN]\<rparr>"

definition exNetwork :: payoutNetwork where
  "exNetwork r = (if pr_sender_item_id r = ''a'' then Inl ''timeout'' else Inr ''B1'')"

section \<open>Properties\<close>

subsection \<open>Lookups after writes\<close>

lemma getDoc_updateDoc_same:
  "(\<And>d. ident (f d) = ident d) \<Longrightarrow>
   getDoc ident i (updateDoc ident i f ds) = map_option f (getDoc ident i ds)"
  by (induction ds) (auto simp: getDoc_def)

lemma getDoc_updateDoc_other:
  "(\<And>d. ident (f d) = ident d) \<Longrightarrow> i \<noteq> j \<Longrightarrow>
   getDoc ident i (updateDoc ident j f ds) = getDoc ident i ds"
  by (induction ds) (auto simp: getDoc_def)




subsection \<open>Fulfillment\<close>





lemma fulfil_payoutHistory:
  "payoutHistory (fulfil env session sid pid uid buyer p s) = payoutHistory s"
  by (simp add: fulfil_def Let_def sendEmailNotification_def)












subsection \<open>Fee splits\<close>





subsection \<open>Access to purchased content\<close>

text \<open>The product page, the email collection, the checkout and the webhook refuse an
  expired product; \<^verbatim>\<open>accessContent\<close> leaves every order's fingerprint as it is.\<close>

lemma map_deviceInfo_updateDoc:
  "(\<And>d. o_deviceInfo (f d) = o_deviceInfo d) \<Longrightarrow>
   map o_deviceInfo (updateDoc o_id i f ds) = map o_deviceInfo ds"
  by (induction ds) auto

lemma accessContent_never_binds:
  "map o_deviceInfo (orders (snd (accessContent parser token userAgent s))) = map o_deviceInfo (orders s)"
  by (simp add: accessContent_def Let_def map_deviceInfo_updateDoc split: option.splits)

lemma read_paths_gate_expired:
  assumes "getDoc p_id pid (products s) = Some p" and "isExpired now p"
  shows "getProductDetails now (Some pid) s = (Fail 410 ''This product has expired'', s) \<or> pid = []"
    and "\<exists>c m. collectBuyerEmail now sid email (Some pid) s = (Fail c m, s)"
    and "\<exists>c m. createStripeCheckoutSession now gateway (Some pid) sessionId s = (Fail c m, s)"
  using assms
  by (auto simp: getProductDetails_def collectBuyerEmail_def createStripeCheckoutSession_def
      truthy_def split: option.splits)

lemma webhook_gates_expired:
  assumes "cs_app_product_id (ev_object ev) = Some pid"
    and "getDoc p_id pid (products s) = Some p" and "isExpired (fe_now env) p"
  shows "stripeWebhook env (Verified ev) s = (Received, s)"
  using assms by (auto simp: stripeWebhook_def Let_def split: option.splits)

text \<open>
  Claim C4 (expiration gating) at a failing input. In the store after the example
  sale the product's expiration time lies before the clock value 700000000. The
  product page refuses it with status 410, but \<^verbatim>\<open>accessContent\<close>, which never reads the
  clock or the expiration time, hands out the content.
\<close>

theorem C4_expired_content_served:
  "isExpired 700000000 exProduct
   \<and> getDoc p_id ''p1'' (products exSold) = Some (exProduct\<lparr>p_sales := 1, p_revenue := 424 / 5\<rparr>)
   \<and> fst (getProductDetails 700000000 (Some ''p1'') exSold) = Fail 410 ''This product has expired''
   \<and> fst (accessContent exParserUnknown (Some ''tok'') None exSold)
       = Success \<lparr> c_title = ''Song'', c_fileUrl = ''f.mp3'', c_coverUrl = ''c.png'' \<rparr>"
  by code_simp

text \<open>
  Claim C9 (device binding) at a failing input. The order written by the webhook
  carries the placeholder fingerprint Unknown/Unknown, and \<^verbatim>\<open>accessContent\<close> never
  writes a fingerprint to an order. The buyer's first access from a recognised
  browser is therefore refused with status 403 and logged as a failed attempt, and
  the order is left as it was.
\<close>

theorem C9_first_access_refused:
  "map o_deviceInfo (orders exSold)
     = [Some \<lparr> d_browser = ''Unknown'', d_os = ''Unknown'', d_device = ''Unknown'', d_userAgent = [] \<rparr>]
   \<and> accessAttempts exSold = [] \<and> accessLogs exSold = []
   \<and> fst (accessContent exParserChrome (Some ''tok'') (Some ''Mozilla/5.0'') exSold)
       = Fail 403 ''You can only access this content from the device used for purchase.''
   \<and> map aa_allowed (accessAttempts (snd (accessContent exParserChrome (Some ''tok'') (Some ''Mozilla/5.0'') exSold))) = [False]
   \<and> orders (snd (accessContent exParserChrome (Some ''tok'') (Some ''Mozilla/5.0'') exSold)) = orders exSold"
  by code_simp

subsection \<open>Cascading deletion\<close>

lemma filter_none_neg: "filter q c = [] \<Longrightarrow> filter (\<lambda>d. \<not> q d) c = c"
  by (induction c) (auto split: if_splits)

lemma deleteQueryBatch_closed:
  "fst (deleteQueryBatch q (c, l)) = (filter (\<lambda>d. \<not> q d) c, l @ batchOf (filter q c))"
  by (simp add: deleteQueryBatch_def batchOf_def Let_def filter_none_neg)

lemma deleteViews_closed:
  "deleteViews pid s = s\<lparr>productViews := filter (\<lambda>v. v_productId v \<noteq> pid) (productViews s),
      commits := commits s @ batchOf (filter (\<lambda>v. v_productId v = pid) (productViews s))\<rparr>"
  by (simp add: deleteViews_def deleteQueryBatch_closed Let_def)

lemma deleteAccessLogs_closed:
  "deleteAccessLogs oid s = s\<lparr>accessLogs := filter (\<lambda>v. al_orderId v \<noteq> oid) (accessLogs s),
      commits := commits s @ batchOf (filter (\<lambda>v. al_orderId v = oid) (accessLogs s))\<rparr>"
  by (simp add: deleteAccessLogs_def deleteQueryBatch_closed Let_def)

lemma deleteAccessAttempts_closed:
  "deleteAccessAttempts oid s = s\<lparr>accessAttempts := filter (\<lambda>v. aa_orderId v \<noteq> oid) (accessAttempts s),
      commits := commits s @ batchOf (filter (\<lambda>v. aa_orderId v = oid) (accessAttempts s))\<rparr>"
  by (simp add: deleteAccessAttempts_def deleteQueryBatch_closed Let_def)

lemma deletePaymentSessions_closed:
  "deletePaymentSessions pid s = s\<lparr>paymentSessions := filter (\<lambda>v. ps_productId v \<noteq> pid) (paymentSessions s),
      commits := commits s @ batchOf (filter (\<lambda>v. ps_productId v = pid) (paymentSessions s))\<rparr>"
  by (simp add: deletePaymentSessions_def deleteQueryBatch_closed Let_def)

lemma deleteEmailSentLogs_closed:
  "deleteEmailSentLogs pid s = s\<lparr>emailSentLogs := filter (\<lambda>v. el_productId v \<noteq> pid) (emailSentLogs s),
      commits := commits s @ batchOf (filter (\<lambda>v. el_productId v = pid) (emailSentLogs s))\<rparr>"
  by (simp add: deleteEmailSentLogs_def deleteQueryBatch_closed Let_def)

lemma deleteLinkGenerationDetails_closed:
  "deleteLinkGenerationDetails pid s = s\<lparr>linkGenerationDetails := filter (\<lambda>v. lg_productId v \<noteq> pid) (linkGenerationDetails s),
      commits := commits s @ batchOf (filter (\<lambda>v. lg_productId v = pid) (linkGenerationDetails s))\<rparr>"
  by (simp add: deleteLinkGenerationDetails_def deleteQueryBatch_closed Let_def)


lemma attempt_deleteFile:
  "attempt faults oper (deleteFile path) s =
     s\<lparr>files := (if faults oper then files s else filter (\<lambda>f. f \<noteq> path) (files s))\<rparr>"
  by (simp add: attempt_def deleteFile_def)

lemma attempt_deleteViews:
  "attempt faults oper (deleteViews pid) s =
     s\<lparr>productViews := (if faults oper then productViews s
                         else filter (\<lambda>v. v_productId v \<noteq> pid) (productViews s)),
       commits := (if faults oper then commits s
                   else commits s @ batchOf (filter (\<lambda>v. v_productId v = pid) (productViews s)))\<rparr>"
  by (simp add: attempt_def deleteViews_closed)

lemma attempt_deleteAccessLogs:
  "attempt faults oper (deleteAccessLogs oid) s =
     s\<lparr>accessLogs := (if faults oper then accessLogs s
                       else filter (\<lambda>v. al_orderId v \<noteq> oid) (accessLogs s)),
       commits := (if faults oper then commits s
                   else commits s @ batchOf (filter (\<lambda>v. al_orderId v = oid) (accessLogs s)))\<rparr>"
  by (simp add: attempt_def deleteAccessLogs_closed)

lemma attempt_deleteAccessAttempts:
  "attempt faults oper (deleteAccessAttempts oid) s =
     s\<lparr>accessAttempts := (if faults oper then accessAttempts s
                           else filter (\<lambda>v. aa_orderId v \<noteq> oid) (accessAttempts s)),
       commits := (if faults oper then commits s
                   else commits s @ batchOf (filter (\<lambda>v. aa_orderId v = oid) (accessAttempts s)))\<rparr>"
  by (simp add: attempt_def deleteAccessAttempts_closed)

lemma attempt_deleteOrders:
  "attempt faults oper (deleteOrders snap) s =
     s\<lparr>orders := (if faults oper then orders s
                   else filter (\<lambda>x. o_id x \<notin> set (map o_id snap)) (orders s)),
       commits := (if faults oper then commits s else commits s @ [length snap])\<rparr>"
  by (simp add: attempt_def deleteOrders_def)

lemma attempt_deletePaymentSessions:
  "attempt faults oper (deletePaymentSessions pid) s =
     s\<lparr>paymentSessions := (if faults oper then paymentSessions s
                            else filter (\<lambda>v. ps_productId v \<noteq> pid) (paymentSessions s)),
       commits := (if faults oper then commits s
                   else commits s @ batchOf (filter (\<lambda>v. ps_productId v = pid) (paymentSessions s)))\<rparr>"
  by (simp add: attempt_def deletePaymentSessions_closed)

lemma attempt_deleteEmailSentLogs:
  "attempt faults oper (deleteEmailSentLogs pid) s =
     s\<lparr>emailSentLogs := (if faults oper then emailSentLogs s
                          else filter (\<lambda>v. el_productId v \<noteq> pid) (emailSentLogs s)),
       commits := (if faults oper then commits s
                   else commits s @ batchOf (filter (\<lambda>v. el_productId v = pid) (emailSentLogs s)))\<rparr>"
  by (simp add: attempt_def deleteEmailSentLogs_closed)

lemma attempt_deleteLinkGenerationDetails:
  "attempt faults oper (deleteLinkGenerationDetails pid) s =
     s\<lparr>linkGenerationDetails := (if faults oper then linkGenerationDetails s
                          else filter (\<lambda>v. lg_productId v \<noteq> pid) (linkGenerationDetails s)),
       commits := (if faults oper then commits s
                   else commits s @ batchOf (filter (\<lambda>v. lg_productId v = pid) (linkGenerationDetails s)))\<rparr>"
  by (simp add: attempt_def deleteLinkGenerationDetails_closed)

lemma attempt_deleteProductDoc:
  "attempt faults oper (deleteProductDoc pid) s =
     s\<lparr>products := (if faults oper then products s
                     else filter (\<lambda>q. p_id q \<noteq> pid) (products s))\<rparr>"
  by (simp add: attempt_def deleteProductDoc_def)

lemmas attempt_closed = attempt_deleteFile attempt_deleteViews attempt_deleteAccessLogs
  attempt_deleteAccessAttempts attempt_deleteOrders attempt_deletePaymentSessions
  attempt_deleteEmailSentLogs attempt_deleteLinkGenerationDetails attempt_deleteProductDoc

lemma orderLogsLoop_frame2:
  "products (orderLogsLoop faults xs s) = products s
   \<and> orders (orderLogsLoop faults xs s) = orders s
   \<and> productViews (orderLogsLoop faults xs s) = productViews s
   \<and> paymentSessions (orderLogsLoop faults xs s) = paymentSessions s
   \<and> emailSentLogs (orderLogsLoop faults xs s) = emailSentLogs s
   \<and> linkGenerationDetails (orderLogsLoop faults xs s) = linkGenerationDetails s
   \<and> transactions (orderLogsLoop faults xs s) = transactions s
   \<and> payoutHistory (orderLogsLoop faults xs s) = payoutHistory s
   \<and> users (orderLogsLoop faults xs s) = users s
   \<and> userStats (orderLogsLoop faults xs s) = userStats s
   \<and> files (orderLogsLoop faults xs s) = files s"
  by (induction xs arbitrary: s) (simp_all add: attempt_closed)

lemma guarded_deleteFile:
  "(if c then attempt faults oper (deleteFile path) s else s) =
     s\<lparr>files := (if c \<and> \<not> faults oper then filter (\<lambda>f. f \<noteq> path) (files s) else files s)\<rparr>"
  by (simp add: attempt_deleteFile)

lemma guarded_deleteOrders:
  "(if snap \<noteq> [] then attempt faults oper (deleteOrders snap) (orderLogsLoop faults snap s) else s) =
     (orderLogsLoop faults snap s)
       \<lparr>orders := (if snap \<noteq> [] \<and> \<not> faults oper
                    then filter (\<lambda>x. o_id x \<notin> set (map o_id snap)) (orders s) else orders s),
        commits := (if snap \<noteq> [] \<and> \<not> faults oper
                    then commits (orderLogsLoop faults snap s) @ [length snap]
                    else commits (orderLogsLoop faults snap s))\<rparr>"
  by (cases "snap = []") (simp_all add: attempt_deleteOrders orderLogsLoop_frame2)

















lemma attempt_recomputeStats:
  "\<exists>st. attempt faults oper (recomputeStats uid) s = s\<lparr>userStats := st\<rparr>"
proof (cases "faults oper")
  case True
  then have "attempt faults oper (recomputeStats uid) s = s\<lparr>userStats := userStats s\<rparr>"
    by (simp add: attempt_def)
  then show ?thesis by blast
next
  case False
  then have "attempt faults oper (recomputeStats uid) s
               = s\<lparr>userStats := userStats (recomputeStats uid s)\<rparr>"
    by (simp add: attempt_def recomputeStats_def Let_def)
  then show ?thesis by blast
qed

lemma statsLoop_only_stats: "\<exists>st. statsLoop faults uids s = s\<lparr>userStats := st\<rparr>"
proof (induction uids arbitrary: s)
  case Nil
  have "s = s\<lparr>userStats := userStats s\<rparr>" by simp
  then show ?case by (metis statsLoop.simps(1))
next
  case (Cons u uids)
  obtain st where a: "attempt faults (RecomputeStats u) (recomputeStats u) s = s\<lparr>userStats := st\<rparr>"
    using attempt_recomputeStats by blast
  obtain st2 where b: "statsLoop faults uids (s\<lparr>userStats := st\<rparr>) = s\<lparr>userStats := st\<rparr>\<lparr>userStats := st2\<rparr>"
    using Cons by blast
  have "statsLoop faults (u # uids) s = s\<lparr>userStats := st2\<rparr>" using a b by simp
  then show ?case by blast
qed





lemma attempt_id: "attempt faults oper (\<lambda>t. t) s = s"
  by (simp add: attempt_def)





lemma exViews_facts:
  "filter (\<lambda>v. v_productId v = ''p1'') exViews = exViews"
  "filter (\<lambda>v. v_productId v \<noteq> ''p1'') exViews = []"
  "length exViews = 501"
  "exViews \<noteq> []"
  unfolding exViews_def by (simp_all add: filter_replicate)

lemma statsLoop_commits: "commits (statsLoop faults uids s) = commits s"
proof -
  obtain st where "statsLoop faults uids s = s\<lparr>userStats := st\<rparr>"
    using statsLoop_only_stats by blast
  then show ?thesis by simp
qed

lemma cleanupProduct_commits:
  "filter (\<lambda>x. o_productId x = p_id p) (orders s) = [] \<Longrightarrow>
   commits (cleanupProduct noFaults p s) =
     commits s @ batchOf (filter (\<lambda>v. v_productId v = p_id p) (productViews s))
       @ batchOf (filter (\<lambda>v. ps_productId v = p_id p) (paymentSessions s))
       @ batchOf (filter (\<lambda>v. el_productId v = p_id p) (emailSentLogs s))
       @ batchOf (filter (\<lambda>v. lg_productId v = p_id p) (linkGenerationDetails s))"
  by (simp add: cleanupProduct_def Let_def guarded_deleteFile guarded_deleteOrders attempt_closed
      noFaults_def orderLogsLoop_frame2)

text \<open>
  Claim C8 (size-bounded batch deletes) at a failing input. With 501 views recorded
  for an expired product, \<^verbatim>\<open>deleteQueryBatch\<close> puts all 501 deletes into one write
  batch, and the hourly sweep commits that batch of 501 (followed by a batch of one
  payment session): nothing bounds a batch by 500.
\<close>

theorem C8_single_unbounded_batch:
  "length (filter (\<lambda>v. v_productId v = ''p1'') (productViews exViewsStore)) = 501
   \<and> commits exViewsStore = []
   \<and> snd (fst (deleteQueryBatch (\<lambda>v. v_productId v = ''p1'')
                  (productViews exViewsStore, commits exViewsStore))) = [501]
   \<and> commits (cleanupOldProducts noFaults (PRODUCT_TTL_MS + 1) exViewsStore) = [501, 1]"
proof -
  have v: "productViews exViewsStore = exViews" "commits exViewsStore = []"
    "products exViewsStore = [exProduct]" "orders exViewsStore = []"
    "paymentSessions exViewsStore = [exSession]" "emailSentLogs exViewsStore = []"
    "linkGenerationDetails exViewsStore = []"
    by (simp_all add: exViewsStore_def exStore_def emptyStore_def)
  have p: "p_id exProduct = ''p1''" "p_createdAt exProduct = 0" "ps_productId exSession = ''p1''"
    by (simp_all add: exProduct_def exSession_def)
  let ?s0 = "exViewsStore\<lparr>productCleanupLogs := productCleanupLogs exViewsStore @ [(1, [''p1''])]\<rparr>"
  have "commits (cleanupProduct noFaults exProduct ?s0) = [501, 1]"
    by (subst cleanupProduct_commits) (simp_all add: v p exViews_facts batchOf_def)
  then have "commits (cleanupOldProducts noFaults (PRODUCT_TTL_MS + 1) exViewsStore) = [501, 1]"
    by (simp add: cleanupOldProducts_def Let_def statsLoop_commits v p)
  moreover have "snd (fst (deleteQueryBatch (\<lambda>v. v_productId v = ''p1'')
                  (productViews exViewsStore, commits exViewsStore))) = [501]"
    by (simp add: deleteQueryBatch_closed v exViews_facts batchOf_def)
  ultimately show ?thesis by (simp add: v exViews_facts)
qed







subsection \<open>Ledger and balance\<close>


lemma payoutFailed_errors:
  "\<exists>e. payoutErrors (snd (payoutFailed uid amt em msg s)) = payoutErrors s @ [e]
        \<and> pe_userId e = uid \<and> pe_amount e = amt"
  by (simp add: payoutFailed_def Let_def sendEmailNotification_def)

lemma payoutFailed_emails:
  "set (emails s) \<subseteq> set (emails (snd (payoutFailed uid amt em msg s)))"
  by (auto simp: payoutFailed_def Let_def sendEmailNotification_def)

lemma balanceOf_users: "users s' = users s \<Longrightarrow> balanceOf u s' = balanceOf u s"
  by (simp add: balanceOf_def)







lemma lowBalanceLoop_only_emails: "\<exists>em. lowBalanceLoop xs s = s\<lparr>emails := em\<rparr>"
proof (induction xs arbitrary: s)
  case Nil
  have "lowBalanceLoop [] s = s\<lparr>emails := emails s\<rparr>" by simp
  then show ?case by blast
next
  case (Cons x xs)
  let ?t = "if truthy (u_email x) \<and> isEmail (u_email x)
        then sendEmailNotification min_balance_not_reached (u_email x) (u_balance x) s else s"
  obtain e1 where e1: "?t = s\<lparr>emails := e1\<rparr>"
  proof (cases "truthy (u_email x) \<and> isEmail (u_email x)")
    case True
    then have "?t = s\<lparr>emails := emails s @ [\<lparr> n_type = min_balance_not_reached, n_to = u_email x,
          n_amount = u_balance x \<rparr>]\<rparr>" by (simp add: sendEmailNotification_def)
    then show ?thesis using that by blast
  next
    case False
    then have "?t = s\<lparr>emails := emails s\<rparr>" by auto
    then show ?thesis using that by blast
  qed
  obtain e2 where "lowBalanceLoop xs (s\<lparr>emails := e1\<rparr>) = s\<lparr>emails := e1\<rparr>\<lparr>emails := e2\<rparr>"
    using Cons by blast
  then have "lowBalanceLoop (x # xs) s = s\<lparr>emails := e2\<rparr>" using e1 by simp
  then show ?case by blast
qed






subsection \<open>Weekly payouts\<close>

lemma net_positive: "MIN_PAYOUT \<le> b \<Longrightarrow> \<not> b - (PAYPAL_FEE_FIXED + b * PAYPAL_FEE_RATE) \<le> 0"
  by (simp add: MIN_PAYOUT_def PAYPAL_FEE_FIXED_def PAYPAL_FEE_RATE_def)

lemma processPayout_weekly_ok:
  assumes "MIN_PAYOUT \<le> u_balance x" and "network (payoutRequestOf x) = Inr b"
    and "getDoc u_id (u_id x) (users s) = Some d"
  shows "processPayout network (u_id x) (u_balance x) (orElse (u_paypalEmail x) []) s =
     (Inr b,
      s\<lparr>users := updateDoc u_id (u_id x) (\<lambda>u. u\<lparr>u_balance := u_balance u - u_balance x\<rparr>) (users s),
        payoutHistory := payoutHistory s @
          [\<lparr> ph_userId = u_id x,
             ph_amount = u_balance x - (PAYPAL_FEE_FIXED + u_balance x * PAYPAL_FEE_RATE),
             ph_grossAmount = u_balance x,
             ph_payoutFee = PAYPAL_FEE_FIXED + u_balance x * PAYPAL_FEE_RATE,
             ph_paypalEmail = orElse (u_paypalEmail x) [], ph_batchId = b \<rparr>],
        transactions := transactions s @
          [\<lparr> t_userId = u_id x, t_type = Payout,
             t_amount = u_balance x - (PAYPAL_FEE_FIXED + u_balance x * PAYPAL_FEE_RATE),
             t_grossAmount = u_balance x,
             t_fee = PAYPAL_FEE_FIXED + u_balance x * PAYPAL_FEE_RATE, t_commission = None,
             t_productId = None, t_orderId = None \<rparr>]\<rparr>)"
  using assms net_positive [OF assms(1)]
  by (simp add: processPayout_def Let_def payoutRequestOf_def)

lemma processPayout_weekly_fail:
  assumes "MIN_PAYOUT \<le> u_balance x" and "network (payoutRequestOf x) = Inl msg"
  shows "processPayout network (u_id x) (u_balance x) (orElse (u_paypalEmail x) []) s =
     payoutFailed (u_id x) (u_balance x) (orElse (u_paypalEmail x) []) msg s"
  using assms net_positive [OF assms(1)]
  by (simp add: processPayout_def Let_def payoutRequestOf_def)

lemma userView_processPayout_other:
  "uid \<noteq> i \<Longrightarrow> userView i (snd (processPayout network uid amt em s)) = userView i s"
  by (simp add: processPayout_def payoutFailed_def Let_def userView_def sendEmailNotification_def
      getDoc_updateDoc_other split: sum.splits option.splits)

lemma userView_email: "userView i (sendEmailNotification ty r m s) = userView i s"
  by (simp add: userView_def sendEmailNotification_def)

lemma payoutUser_other:
  "i \<noteq> u_id x \<Longrightarrow> userView i (fst (payoutUser network x sc)) = userView i (fst sc)"
proof -
  assume "i \<noteq> u_id x"
  then have n: "u_id x \<noteq> i" by simp
  have "userView i (snd (processPayout network (u_id x) (u_balance x) (orElse (u_paypalEmail x) []) (fst sc)))
          = userView i (fst sc)"
    by (rule userView_processPayout_other [OF n])
  then show ?thesis using n
    by (auto simp: payoutUser_def Let_def userView_email split: prod.splits sum.splits)
       (simp_all add: userView_def)
qed

lemma payoutLoop_other:
  "i \<notin> set (map u_id xs) \<Longrightarrow> userView i (fst (payoutLoop network xs sc)) = userView i (fst sc)"
  by (induction xs arbitrary: sc) (simp_all add: payoutUser_other)

lemma payoutLoop_append:
  "payoutLoop network (xs @ ys) sc = payoutLoop network ys (payoutLoop network xs sc)"
  by (induction xs arbitrary: sc) simp_all

lemma payoutUser_ok:
  assumes "isEmail (u_paypalEmail x)" and "MIN_PAYOUT \<le> u_balance x"
    and "network (payoutRequestOf x) = Inr b"
    and "userView (u_id x) (fst sc) = (Some d, txs, phs, errs)"
  shows "userView (u_id x) (fst (payoutUser network x sc)) =
     (Some (d\<lparr>u_balance := u_balance d - u_balance x\<rparr>),
      txs @ [\<lparr> t_userId = u_id x, t_type = Payout,
               t_amount = u_balance x - (PAYPAL_FEE_FIXED + u_balance x * PAYPAL_FEE_RATE),
               t_grossAmount = u_balance x,
               t_fee = PAYPAL_FEE_FIXED + u_balance x * PAYPAL_FEE_RATE, t_commission = None,
               t_productId = None, t_orderId = None \<rparr>],
      phs @ [\<lparr> ph_userId = u_id x,
               ph_amount = u_balance x - (PAYPAL_FEE_FIXED + u_balance x * PAYPAL_FEE_RATE),
               ph_grossAmount = u_balance x,
               ph_payoutFee = PAYPAL_FEE_FIXED + u_balance x * PAYPAL_FEE_RATE,
               ph_paypalEmail = orElse (u_paypalEmail x) [], ph_batchId = b \<rparr>],
      errs)"
proof -
  have g: "getDoc u_id (u_id x) (users (fst sc)) = Some d"
    using assms(4) by (simp add: userView_def)
  show ?thesis
    using assms g processPayout_weekly_ok [of x network b "fst sc" d]
    by (simp add: payoutUser_def Let_def userView_def sendEmailNotification_def
        getDoc_updateDoc_same)
qed

lemma payoutUser_fail:
  assumes "isEmail (u_paypalEmail x)" and "MIN_PAYOUT \<le> u_balance x"
    and "network (payoutRequestOf x) = Inl msg"
    and "userView (u_id x) (fst sc) = (ud, txs, phs, errs)"
  shows "\<exists>e1 e2. userView (u_id x) (fst (payoutUser network x sc)) = (ud, txs, phs, errs @ [e1, e2])
           \<and> pe_amount e1 = u_balance x \<and> pe_amount e2 = u_balance x"
  using assms processPayout_weekly_fail [of x network msg "fst sc"]
  by (simp add: payoutUser_def Let_def userView_def sendEmailNotification_def payoutFailed_def)

lemma getDoc_distinct:
  "distinct (map ident ds) \<Longrightarrow> d \<in> set ds \<Longrightarrow> getDoc ident (ident d) ds = Some d"
  by (induction ds) (auto simp: getDoc_def)

lemma payoutLoop_at:
  assumes "distinct (map u_id xs)" and "x \<in> set xs"
  shows "\<exists>sc1. userView (u_id x) (fst sc1) = userView (u_id x) (fst sc)
           \<and> userView (u_id x) (fst (payoutLoop network xs sc))
               = userView (u_id x) (fst (payoutUser network x sc1))"
proof -
  obtain pre post where sp: "xs = pre @ x # post" using assms(2) by (meson split_list)
  have d: "u_id x \<notin> set (map u_id pre)" "u_id x \<notin> set (map u_id post)"
    using assms(1) sp by auto
  let ?sc1 = "payoutLoop network pre sc"
  have "payoutLoop network xs sc = payoutLoop network post (payoutUser network x ?sc1)"
    by (simp add: sp payoutLoop_append)
  then have "userView (u_id x) (fst (payoutLoop network xs sc))
               = userView (u_id x) (fst (payoutUser network x ?sc1))"
    by (simp add: payoutLoop_other [OF d(2)])
  moreover have "userView (u_id x) (fst ?sc1) = userView (u_id x) (fst sc)"
    by (rule payoutLoop_other [OF d(1)])
  ultimately show ?thesis by blast
qed

lemma isEmail_Some: "isEmail v \<Longrightarrow> v \<noteq> None \<and> truthy v"
  by (cases v) (auto simp: isEmail_def isEmailStr_def orElse_def truthy_def Let_def)

lemma userView_fields:
  "users s' = users s \<Longrightarrow> transactions s' = transactions s \<Longrightarrow> payoutHistory s' = payoutHistory s
   \<Longrightarrow> payoutErrors s' = payoutErrors s \<Longrightarrow> userView i s' = userView i s"
  by (simp add: userView_def)

lemma weekly_view:
  "userView i (processWeeklyPayouts network s) =
     userView i (fst (payoutLoop network
        (filter (\<lambda>u. MIN_PAYOUT \<le> u_balance u \<and> u_paypalEmail u \<noteq> None) (users s))
        (s\<lparr>payoutSessions := payoutSessions s @
                 [\<lparr> pss_status = ''started'', pss_processedUsers = 0, pss_successfulPayouts = 0,
                    pss_failedPayouts = 0, pss_totalAmount = 0 \<rparr>]\<rparr>,
         \<lparr> processedUsers = 0, successfulPayouts = 0, failedPayouts = 0, totalAmount = 0 \<rparr>)))"
proof -
  let ?s0 = "s\<lparr>payoutSessions := payoutSessions s @
                 [\<lparr> pss_status = ''started'', pss_processedUsers = 0, pss_successfulPayouts = 0,
                    pss_failedPayouts = 0, pss_totalAmount = 0 \<rparr>]\<rparr>"
  let ?snap = "filter (\<lambda>u. MIN_PAYOUT \<le> u_balance u \<and> u_paypalEmail u \<noteq> None) (users ?s0)"
  let ?sc = "payoutLoop network ?snap
                 (?s0, \<lparr> processedUsers = 0, successfulPayouts = 0, failedPayouts = 0, totalAmount = 0 \<rparr>)"
  let ?low = "filter (\<lambda>u. 0 < u_balance u \<and> u_balance u < MIN_PAYOUT \<and> u_paypalEmail u \<noteq> None) (users (fst ?sc))"
  obtain em where em: "lowBalanceLoop ?low (fst ?sc) = (fst ?sc)\<lparr>emails := em\<rparr>"
    using lowBalanceLoop_only_emails by blast
  have "userView i (processWeeklyPayouts network s) = userView i (fst ?sc)"
    unfolding processWeeklyPayouts_def Let_def em
    by (rule userView_fields) simp_all
  then show ?thesis by simp
qed


lemma weekly_paid:
  assumes "distinct (map u_id (users s))" and "x \<in> set (users s)"
    and "isEmail (u_paypalEmail x)" and "MIN_PAYOUT \<le> u_balance x"
    and "network (payoutRequestOf x) = Inr b"
  shows "userView (u_id x) (processWeeklyPayouts network s) =
     (Some (x\<lparr>u_balance := u_balance x - u_balance x\<rparr>),
      filter (\<lambda>t. t_userId t = u_id x) (transactions s) @
        [\<lparr> t_userId = u_id x, t_type = Payout,
           t_amount = u_balance x - (PAYPAL_FEE_FIXED + u_balance x * PAYPAL_FEE_RATE),
           t_grossAmount = u_balance x,
           t_fee = PAYPAL_FEE_FIXED + u_balance x * PAYPAL_FEE_RATE, t_commission = None,
           t_productId = None, t_orderId = None \<rparr>],
      filter (\<lambda>r. ph_userId r = u_id x) (payoutHistory s) @
        [\<lparr> ph_userId = u_id x,
           ph_amount = u_balance x - (PAYPAL_FEE_FIXED + u_balance x * PAYPAL_FEE_RATE),
           ph_grossAmount = u_balance x,
           ph_payoutFee = PAYPAL_FEE_FIXED + u_balance x * PAYPAL_FEE_RATE,
           ph_paypalEmail = orElse (u_paypalEmail x) [], ph_batchId = b \<rparr>],
      filter (\<lambda>e. pe_userId e = u_id x) (payoutErrors s))"
proof -
  let ?s0 = "s\<lparr>payoutSessions := payoutSessions s @
                 [\<lparr> pss_status = ''started'', pss_processedUsers = 0, pss_successfulPayouts = 0,
                    pss_failedPayouts = 0, pss_totalAmount = 0 \<rparr>]\<rparr>"
  let ?snap = "filter (\<lambda>u. MIN_PAYOUT \<le> u_balance u \<and> u_paypalEmail u \<noteq> None) (users s)"
  let ?c0 = "\<lparr> processedUsers = 0, successfulPayouts = 0, failedPayouts = 0, totalAmount = 0 \<rparr>"
  have dsnap: "distinct (map u_id ?snap)" using assms(1) by (rule distinct_map_filter)
  have xin: "x \<in> set ?snap" using assms isEmail_Some by auto
  obtain sc1 where v1: "userView (u_id x) (fst sc1) = userView (u_id x) (fst (?s0, ?c0))"
    and v2: "userView (u_id x) (fst (payoutLoop network ?snap (?s0, ?c0)))
               = userView (u_id x) (fst (payoutUser network x sc1))"
    using payoutLoop_at [OF dsnap xin] by blast
  have "userView (u_id x) (fst sc1) =
      (Some x, filter (\<lambda>t. t_userId t = u_id x) (transactions s),
       filter (\<lambda>r. ph_userId r = u_id x) (payoutHistory s),
       filter (\<lambda>e. pe_userId e = u_id x) (payoutErrors s))"
    using v1 getDoc_distinct [OF assms(1) assms(2)] by (simp add: userView_def)
  then show ?thesis
    using assms v2 payoutUser_ok [where x = x and network = network and b = b and sc = sc1]
    by (simp add: weekly_view)
qed

lemma weekly_failed:
  assumes "distinct (map u_id (users s))" and "x \<in> set (users s)"
    and "isEmail (u_paypalEmail x)" and "MIN_PAYOUT \<le> u_balance x"
    and "network (payoutRequestOf x) = Inl msg"
  shows "\<exists>e1 e2. userView (u_id x) (processWeeklyPayouts network s) =
     (Some x, filter (\<lambda>t. t_userId t = u_id x) (transactions s),
      filter (\<lambda>r. ph_userId r = u_id x) (payoutHistory s),
      filter (\<lambda>e. pe_userId e = u_id x) (payoutErrors s) @ [e1, e2])
      \<and> pe_amount e1 = u_balance x \<and> pe_amount e2 = u_balance x"
proof -
  let ?s0 = "s\<lparr>payoutSessions := payoutSessions s @
                 [\<lparr> pss_status = ''started'', pss_processedUsers = 0, pss_successfulPayouts = 0,
                    pss_failedPayouts = 0, pss_totalAmount = 0 \<rparr>]\<rparr>"
  let ?snap = "filter (\<lambda>u. MIN_PAYOUT \<le> u_balance u \<and> u_paypalEmail u \<noteq> None) (users s)"
  let ?c0 = "\<lparr> processedUsers = 0, successfulPayouts = 0, failedPayouts = 0, totalAmount = 0 \<rparr>"
  have dsnap: "distinct (map u_id ?snap)" using assms(1) by (rule distinct_map_filter)
  have xin: "x \<in> set ?snap" using assms isEmail_Some by auto
  obtain sc1 where v1: "userView (u_id x) (fst sc1) = userView (u_id x) (fst (?s0, ?c0))"
    and v2: "userView (u_id x) (fst (payoutLoop network ?snap (?s0, ?c0)))
               = userView (u_id x) (fst (payoutUser network x sc1))"
    using payoutLoop_at [OF dsnap xin] by blast
  have "userView (u_id x) (fst sc1) =
      (Some x, filter (\<lambda>t. t_userId t = u_id x) (transactions s),
       filter (\<lambda>r. ph_userId r = u_id x) (payoutHistory s),
       filter (\<lambda>e. pe_userId e = u_id x) (payoutErrors s))"
    using v1 getDoc_distinct [OF assms(1) assms(2)] by (simp add: userView_def)
  then show ?thesis
    using assms v2 payoutUser_fail [where x = x and network = network and msg = msg and sc = sc1]
    by (simp add: weekly_view)
qed









lemma balanceOf_userView: "balanceOf i s = (case fst (userView i s) of None \<Rightarrow> 0 | Some d \<Rightarrow> u_balance d)"
  by (simp add: balanceOf_def userView_def)

lemma userView_parts:
  "userView i s' = (a, b, c, e) \<Longrightarrow>
   getDoc u_id i (users s') = a \<and> filter (\<lambda>t. t_userId t = i) (transactions s') = b
   \<and> filter (\<lambda>r. ph_userId r = i) (payoutHistory s') = c
   \<and> filter (\<lambda>e. pe_userId e = i) (payoutErrors s') = e"
  by (simp add: userView_def)

text \<open>
  Claim C7 (payout batch isolation). In a weekly run over a store with distinct user
  ids, let the network refuse the payout of an eligible user A and accept that of
  an eligible user B. Then A's balance is not debited, no payout transaction and no
  payout record is appended for A, and payout-error records are logged for A (one by
  the helper, one by the job); B's balance is debited to zero and B gets a payout
  transaction and a payout record: A's failure does not stop the run.
\<close>

theorem C7_payout_batch_isolation:
  "distinct (map u_id (users s)) \<and> A \<in> set (users s) \<and> B \<in> set (users s)
   \<and> isEmail (u_paypalEmail A) \<and> MIN_PAYOUT \<le> u_balance A \<and> network (payoutRequestOf A) = Inl msg
   \<and> isEmail (u_paypalEmail B) \<and> MIN_PAYOUT \<le> u_balance B \<and> network (payoutRequestOf B) = Inr b
   \<longrightarrow>
   (let s' = processWeeklyPayouts network s
    in balanceOf (u_id A) s' = u_balance A
       \<and> filter (\<lambda>t. t_userId t = u_id A) (transactions s') = filter (\<lambda>t. t_userId t = u_id A) (transactions s)
       \<and> filter (\<lambda>r. ph_userId r = u_id A) (payoutHistory s') = filter (\<lambda>r. ph_userId r = u_id A) (payoutHistory s)
       \<and> length (filter (\<lambda>e. pe_userId e = u_id A) (payoutErrors s'))
           = length (filter (\<lambda>e. pe_userId e = u_id A) (payoutErrors s)) + 2
       \<and> balanceOf (u_id B) s' = 0
       \<and> filter (\<lambda>t. t_userId t = u_id B) (transactions s') =
           filter (\<lambda>t. t_userId t = u_id B) (transactions s) @
             [\<lparr> t_userId = u_id B, t_type = Payout,
                t_amount = u_balance B - (PAYPAL_FEE_FIXED + u_balance B * PAYPAL_FEE_RATE),
                t_grossAmount = u_balance B,
                t_fee = PAYPAL_FEE_FIXED + u_balance B * PAYPAL_FEE_RATE, t_commission = None,
                t_productId = None, t_orderId = None \<rparr>]
       \<and> filter (\<lambda>r. ph_userId r = u_id B) (payoutHistory s') =
           filter (\<lambda>r. ph_userId r = u_id B) (payoutHistory s) @
             [\<lparr> ph_userId = u_id B,
                ph_amount = u_balance B - (PAYPAL_FEE_FIXED + u_balance B * PAYPAL_FEE_RATE),
                ph_grossAmount = u_balance B,
                ph_payoutFee = PAYPAL_FEE_FIXED + u_balance B * PAYPAL_FEE_RATE,
                ph_paypalEmail = orElse (u_paypalEmail B) [], ph_batchId = b \<rparr>])"
proof
  assume h: "distinct (map u_id (users s)) \<and> A \<in> set (users s) \<and> B \<in> set (users s)
   \<and> isEmail (u_paypalEmail A) \<and> MIN_PAYOUT \<le> u_balance A \<and> network (payoutRequestOf A) = Inl msg
   \<and> isEmail (u_paypalEmail B) \<and> MIN_PAYOUT \<le> u_balance B \<and> network (payoutRequestOf B) = Inr b"
  obtain e1 e2 where a: "userView (u_id A) (processWeeklyPayouts network s) =
     (Some A, filter (\<lambda>t. t_userId t = u_id A) (transactions s),
      filter (\<lambda>r. ph_userId r = u_id A) (payoutHistory s),
      filter (\<lambda>e. pe_userId e = u_id A) (payoutErrors s) @ [e1, e2])"
    using weekly_failed [of s A network msg] h by blast
  note pa = userView_parts [OF a]
  note pb = userView_parts [OF weekly_paid [of s B network b]]
  have "balanceOf (u_id A) (processWeeklyPayouts network s) = u_balance A"
    using pa by (simp add: balanceOf_def)
  moreover have "balanceOf (u_id B) (processWeeklyPayouts network s) = 0"
    using pb h by (simp add: balanceOf_def)
  ultimately show "let s' = processWeeklyPayouts network s
    in balanceOf (u_id A) s' = u_balance A
       \<and> filter (\<lambda>t. t_userId t = u_id A) (transactions s') = filter (\<lambda>t. t_userId t = u_id A) (transactions s)
       \<and> filter (\<lambda>r. ph_userId r = u_id A) (payoutHistory s') = filter (\<lambda>r. ph_userId r = u_id A) (payoutHistory s)
       \<and> length (filter (\<lambda>e. pe_userId e = u_id A) (payoutErrors s'))
           = length (filter (\<lambda>e. pe_userId e = u_id A) (payoutErrors s)) + 2
       \<and> balanceOf (u_id B) s' = 0
       \<and> filter (\<lambda>t. t_userId t = u_id B) (transactions s') =
           filter (\<lambda>t. t_userId t = u_id B) (transactions s) @
             [\<lparr> t_userId = u_id B, t_type = Payout,
                t_amount = u_balance B - (PAYPAL_FEE_FIXED + u_balance B * PAYPAL_FEE_RATE),
                t_grossAmount = u_balance B,
                t_fee = PAYPAL_FEE_FIXED + u_balance B * PAYPAL_FEE_RATE, t_commission = None,
                t_productId = None, t_orderId = None \<rparr>]
       \<and> filter (\<lambda>r. ph_userId r = u_id B) (payoutHistory s') =
           filter (\<lambda>r. ph_userId r = u_id B) (payoutHistory s) @
             [\<lparr> ph_userId = u_id B,
                ph_amount = u_balance B - (PAYPAL_FEE_FIXED + u_balance B * PAYPAL_FEE_RATE),
                ph_grossAmount = u_balance B,
                ph_payoutFee = PAYPAL_FEE_FIXED + u_balance B * PAYPAL_FEE_RATE,
                ph_paypalEmail = orElse (u_paypalEmail B) [], ph_batchId = b \<rparr>]"
    using pa pb h by (simp add: Let_def)
qed

theorem C7_payout_batch_isolation_witness:
  "(distinct (map u_id (users exPayStore)) \<and> exA \<in> set (users exPayStore) \<and> exB \<in> set (users exPayStore)
   \<and> isEmail (u_paypalEmail exA) \<and> MIN_PAYOUT \<le> u_balance exA \<and> exNetwork (payoutRequestOf exA) = Inl ''timeout''
   \<and> isEmail (u_paypalEmail exB) \<and> MIN_PAYOUT \<le> u_balance exB \<and> exNetwork (payoutRequestOf exB) = Inr ''B1'')
   \<and>
   (let s' = processWeeklyPayouts exNetwork exPayStore
    in balanceOf (u_id exA) s' = u_balance exA
       \<and> filter (\<lambda>t. t_userId t = u_id exA) (transactions s') = filter (\<lambda>t. t_userId t = u_id exA) (transactions exPayStore)
       \<and> filter (\<lambda>r. ph_userId r = u_id exA) (payoutHistory s') = filter (\<lambda>r. ph_userId r = u_id exA) (payoutHistory exPayStore)
       \<and> length (filter (\<lambda>e. pe_userId e = u_id exA) (payoutErrors s'))
           = length (filter (\<lambda>e. pe_userId e = u_id exA) (payoutErrors exPayStore)) + 2
       \<and> balanceOf (u_id exB) s' = 0
       \<and> filter (\<lambda>t. t_userId t = u_id exB) (transactions s') =
           filter (\<lambda>t. t_userId t = u_id exB) (transactions exPayStore) @
             [\<lparr> t_userId = u_id exB, t_type = Payout,
                t_amount = u_balance exB - (PAYPAL_FEE_FIXED + u_balance exB * PAYPAL_FEE_RATE),
                t_grossAmount = u_balance exB,
                t_fee = PAYPAL_FEE_FIXED + u_balance exB * PAYPAL_FEE_RATE, t_commission = None,
                t_productId = None, t_orderId = None \<rparr>]
       \<and> filter (\<lambda>r. ph_userId r = u_id exB) (payoutHistory s') =
           filter (\<lambda>r. ph_userId r = u_id exB) (payoutHistory exPayStore) @
             [\<lparr> ph_userId = u_id exB,
                ph_amount = u_balance exB - (PAYPAL_FEE_FIXED + u_balance exB * PAYPAL_FEE_RATE),
                ph_grossAmount = u_balance exB,
                ph_payoutFee = PAYPAL_FEE_FIXED + u_balance exB * PAYPAL_FEE_RATE,
                ph_paypalEmail = orElse (u_paypalEmail exB) [], ph_batchId = ''B1'' \<rparr>])"
proof -
  have e: "isEmail (u_paypalEmail exA)" "isEmail (u_paypalEmail exB)"
    by code_simp+
  have h: "distinct (map u_id (users exPayStore)) \<and> exA \<in> set (users exPayStore) \<and> exB \<in> set (users exPayStore)
   \<and> isEmail (u_paypalEmail exA) \<and> MIN_PAYOUT \<le> u_balance exA \<and> exNetwork (payoutRequestOf exA) = Inl ''timeout''
   \<and> isEmail (u_paypalEmail exB) \<and> MIN_PAYOUT \<le> u_balance exB \<and> exNetwork (payoutRequestOf exB) = Inr ''B1''"
    using e
    by (simp add: exPayStore_def emptyStore_def exA_def exB_def exL_def exN_def exNetwork_def
        payoutRequestOf_def MIN_PAYOUT_def)
  show ?thesis
    by (rule conjI [OF h mp [OF C7_payout_batch_isolation [of exPayStore exA exB exNetwork "''timeout''" "''B1''"] h]])
qed




end
